theory Spec2Isabelle
  imports Main "HOL-Library.Sublist"
begin

section \<open>The file organizer (organize.cpp)\<close>

text \<open>
  A shallow embedding of \<^verbatim>\<open>organize.cpp\<close>: the static table \<^verbatim>\<open>FOLDER_MAP\<close>, the
  reverse index built from it, the classifier \<^verbatim>\<open>get_target_folder\<close>, the argument
  trimmer \<^verbatim>\<open>trim_path\<close>, and the two functions that act on the file system,
  \<^verbatim>\<open>ensure_folders\<close> and \<^verbatim>\<open>organize_files\<close>, together with the \<^verbatim>\<open>try\<close> block of
  \<^verbatim>\<open>main\<close> that calls them.
\<close>

subsection \<open>The category table and the extension index\<close>

text \<open>
  \<^verbatim>\<open>FOLDER_MAP\<close> is a \<^verbatim>\<open>std::unordered_map\<close> from a folder name to the vector of its
  extensions. It is kept here as an association list in the order of the initialiser;
  the order in which C++ iterates over it is unspecified, and the lemmas below that
  describe the index and the provisioned folders are stated through membership, so
  they do not depend on it.
\<close>

definition FOLDER_MAP :: "(string \<times> string list) list" where
  "FOLDER_MAP =
    [(''Programs'', [''.exe'', ''.msi'', ''.bat'', ''.sh'', ''.apk'', ''.app'', ''.jar'', ''.cmd'',
        ''.gadget'', ''.wsf'', ''.deb'', ''.rpm'', ''.bin'', ''.com'', ''.vbs'', ''.ps1'']),
     (''Documents'', [''.pdf'', ''.doc'', ''.docx'', ''.txt'', ''.ppt'', ''.pptx'', ''.xls'', ''.xlsx'',
        ''.odt'', ''.csv'', ''.rtf'', ''.tex'', ''.epub'', ''.md'', ''.log'', ''.json'', ''.xml'',
        ''.yaml'', ''.yml'', ''.ini'']),
     (''Compressed'', [''.zip'', ''.rar'', ''.7z'', ''.tar'', ''.gz'', ''.bz2'', ''.xz'', ''.iso'',
        ''.cab'', ''.arj'', ''.lzh'', ''.ace'', ''.uue'', ''.tar.gz'', ''.tar.bz2'', ''.tar.xz'']),
     (''Music'', [''.mp3'', ''.wav'', ''.aac'', ''.flac'', ''.ogg'', ''.m4a'', ''.wma'', ''.alac'',
        ''.amr'', ''.aiff'', ''.opus'', ''.mid'', ''.midi'']),
     (''Video'', [''.mp4'', ''.mkv'', ''.avi'', ''.mov'', ''.wmv'', ''.flv'', ''.webm'', ''.mpeg'',
        ''.mpg'', ''.m4v'', ''.3gp'', ''.3g2'', ''.vob'', ''.ogv'', ''.rm'', ''.rmvb'', ''.ts'',
        ''.m2ts'']),
     (''Images'', [''.jpg'', ''.jpeg'', ''.png'', ''.gif'', ''.bmp'', ''.tiff'', ''.tif'', ''.webp'',
        ''.svg'', ''.ico'', ''.heic'', ''.raw'', ''.psd'', ''.ai'', ''.indd'', ''.eps'', ''.jfif'',
        ''.apng'', ''.avif'', ''.cr2'', ''.nef'', ''.orf'', ''.sr2'']),
     (''Others'', [])]"

text \<open>
  \<^verbatim>\<open>build_extension_map\<close> writes \<^verbatim>\<open>g_extension_to_folder_map[ext] = folder\<close> for every
  extension of every folder. The global map is passed in and returned; \<^verbatim>\<open>main\<close> calls
  it once on the empty map before anything else.
\<close>

definition build_extension_map :: "(string \<rightharpoonup> string) \<Rightarrow> (string \<rightharpoonup> string)" where
  "build_extension_map g =
     fold (\<lambda>(folder, extensions) g'. fold (\<lambda>ext g''. g''(ext \<mapsto> folder)) extensions g')
       FOLDER_MAP g"

definition g_extension_to_folder_map :: "string \<rightharpoonup> string" where
  "g_extension_to_folder_map = build_extension_map Map.empty"

text \<open>
  \<^verbatim>\<open>std::tolower\<close> on an \<^verbatim>\<open>unsigned char\<close> in the "C" locale (the program never calls
  \<^verbatim>\<open>setlocale\<close>): the letters \<^verbatim>\<open>A\<close> to \<^verbatim>\<open>Z\<close> (65 to 90) move up by 32, every other byte is
  unchanged.
\<close>

definition tolower :: "char \<Rightarrow> char" where
  "tolower c = (let n = (of_char c :: nat) in if 65 \<le> n \<and> n \<le> 90 then char_of (n + 32) else c)"

text \<open>
  \<^verbatim>\<open>get_target_folder\<close>: lower-case the extension byte by byte, look it up in the
  global index (the first argument), and fall back to \<^verbatim>\<open>"Others"\<close>.
\<close>

definition get_target_folder :: "(string \<rightharpoonup> string) \<Rightarrow> string \<Rightarrow> string" where
  "get_target_folder g file_ext =
     (let lower_ext = map tolower file_ext
      in case g lower_ext of Some folder \<Rightarrow> folder | None \<Rightarrow> ''Others'')"

text \<open>
  The words of the specification about case: \<open>toupper\<close> is \<^verbatim>\<open>upper\<close> on one byte, and a
  mixed-case variant of an extension differs from it only in the case of ASCII letters.
  Neither is part of the program.
\<close>

definition toupper :: "char \<Rightarrow> char" where
  "toupper c = (let n = (of_char c :: nat) in if 97 \<le> n \<and> n \<le> 122 then char_of (n - 32) else c)"

definition same_letter :: "char \<Rightarrow> char \<Rightarrow> bool" where
  "same_letter c d =
     (let m = (of_char c :: nat); n = (of_char d :: nat)
      in c = d \<or> (65 \<le> m \<and> m \<le> 90 \<and> n = m + 32) \<or> (97 \<le> m \<and> m \<le> 122 \<and> m = n + 32))"

definition case_variant :: "string \<Rightarrow> string \<Rightarrow> bool" where
  "case_variant e v = list_all2 same_letter e v"

text \<open>The pairs (extension, folder) of a table, in table order.\<close>

definition index_pairs :: "(string \<times> string list) list \<Rightarrow> (string \<times> string) list" where
  "index_pairs tbl = concat (map (\<lambda>(folder, extensions). map (\<lambda>ext. (ext, folder)) extensions) tbl)"

subsection \<open>Trimming the path argument\<close>

text \<open>
  \<^verbatim>\<open>std::string_view::find_first_not_of\<close> and \<^verbatim>\<open>find_last_not_of\<close>: the index of the
  first (last) byte that is not one of \<open>chars\<close>; \<open>None\<close> stands for \<^verbatim>\<open>npos\<close>.
\<close>

fun find_first_not_of :: "string \<Rightarrow> string \<Rightarrow> nat option" where
  "find_first_not_of [] chars = None"
| "find_first_not_of (x # xs) chars =
     (if x \<in> set chars then map_option Suc (find_first_not_of xs chars) else Some 0)"

fun find_last_not_of :: "string \<Rightarrow> string \<Rightarrow> nat option" where
  "find_last_not_of [] chars = None"
| "find_last_not_of (x # xs) chars =
     (case find_last_not_of xs chars of
        Some i \<Rightarrow> Some (Suc i)
      | None \<Rightarrow> if x \<in> set chars then None else Some 0)"

text \<open>
  \<^verbatim>\<open>std::string_view::substr(pos, n)\<close> throws \<^verbatim>\<open>std::out_of_range\<close> (here \<open>None\<close>) when
  \<open>pos\<close> is beyond the size, and clips \<open>n\<close> to what is left of the view otherwise.
\<close>

definition substr :: "string \<Rightarrow> nat \<Rightarrow> nat \<Rightarrow> string option" where
  "substr s pos n = (if length s < pos then None else Some (take n (drop pos s)))"

text \<open>
  The \<^verbatim>\<open>size_t\<close> value of \<^verbatim>\<open>last - first + 1\<close> (64 bits), where \<open>last\<close> may be \<^verbatim>\<open>npos\<close>
  \<open>= 2^64 - 1\<close>. Both indices are positions in a string that fits in memory. Where
  \<open>first \<le> last\<close> nothing wraps; the other two cases write the wrap-around out.
\<close>

definition span :: "nat option \<Rightarrow> nat \<Rightarrow> nat" where
  "span last_pos first =
     (case last_pos of
        Some l \<Rightarrow> if first \<le> l then l - first + 1 else (2 ^ 64 + l + 1 - first) mod 2 ^ 64
      | None \<Rightarrow> (2 ^ 64 - first) mod 2 ^ 64)"

definition whitespace :: string where
  "whitespace = [CHR 0x20, CHR 0x09, CHR 0x0A, CHR 0x0D, CHR 0x0C, CHR 0x0B]"

definition quotes :: string where
  "quotes = [CHR 0x22, CHR 0x27]"

definition trim_path :: "string \<Rightarrow> string option" where
  "trim_path str =
     (case find_first_not_of str whitespace of
        None \<Rightarrow> Some []
      | Some first \<Rightarrow>
          (case substr str first (span (find_last_not_of str whitespace) first) of
             None \<Rightarrow> None
           | Some str' \<Rightarrow>
               (case find_first_not_of str' quotes of
                  None \<Rightarrow> Some []
                | Some first' \<Rightarrow>
                    substr str' first' (span (find_last_not_of str' quotes) first'))))"

text \<open>
  The specification's words for the same transform: strip the bytes of a set from both
  ends, first the white space, then the quotes.
\<close>

definition strip :: "string \<Rightarrow> string \<Rightarrow> string" where
  "strip chars s = rev (dropWhile (\<lambda>c. c \<in> set chars) (rev (dropWhile (\<lambda>c. c \<in> set chars) s)))"

definition trim_spec :: "string \<Rightarrow> string" where
  "trim_spec raw = strip quotes (strip whitespace raw)"

subsection \<open>The file system seen by the program\<close>

text \<open>
  The program reaches the file system only through \<^verbatim>\<open>std::filesystem\<close>, and only at
  paths \<^verbatim>\<open>base_path / name\<close> and \<^verbatim>\<open>base_path / folder / name\<close>. The model keeps the
  directory tree below \<^verbatim>\<open>base_path\<close>: a path is the list of its components relative to
  \<^verbatim>\<open>base_path\<close>, and a node is what \<^verbatim>\<open>status\<close> reports for it (symbolic links followed),
  with the bytes of a regular file so that "the same file" can be said.

  The tree is an association list read with \<open>map_of\<close>. Its order is the order in which
  a directory is enumerated, which the library leaves unspecified: every statement
  below holds for every order.
\<close>

type_synonym path = "string list"

datatype node = Regular string | Directory | Other

type_synonym tree = "(path \<times> node) list"

text \<open>
  What the program writes: on \<^verbatim>\<open>std::cout\<close>
  \<^item> \<open>Skipping name folder\<close>: \<^verbatim>\<open>Skipping 'name': file already exists in 'folder' folder.\<close>
  \<^item> \<open>Organizing p\<close>: \<^verbatim>\<open>Organizing files in 'p'...\<close>
  \<^item> \<open>Complete\<close>: \<^verbatim>\<open>File organization complete.\<close>

  and on \<^verbatim>\<open>std::cerr\<close>
  \<^item> \<open>Error_moving name what\<close>: \<^verbatim>\<open>Error moving file 'name': what\<close>
  \<^item> \<open>Unexpected_error what\<close>: \<^verbatim>\<open>An unexpected error occurred: what\<close>
\<close>

datatype console =
    Skipping string string
  | Error_moving string string
  | Organizing string
  | Complete
  | Unexpected_error string

fun console_text :: "console \<Rightarrow> string" where
  "console_text (Skipping name folder) =
     ''Skipping '' @ [CHR 0x27] @ name @ [CHR 0x27] @ '': file already exists in '' @ [CHR 0x27]
       @ folder @ [CHR 0x27] @ '' folder.''"
| "console_text (Error_moving name what) =
     ''Error moving file '' @ [CHR 0x27] @ name @ [CHR 0x27] @ '': '' @ what"
| "console_text (Organizing p) = ''Organizing files in '' @ [CHR 0x27] @ p @ [CHR 0x27] @ ''...''"
| "console_text Complete = ''File organization complete.''"
| "console_text (Unexpected_error what) = ''An unexpected error occurred: '' @ what"

text \<open>
  The state of a run. \<open>tree\<close>, \<open>cout\<close> and \<open>cerr\<close> change; the other fields are the
  environment, which the program cannot see in advance:
  \<^item> \<open>exists_error p = Some what\<close>: \<^verbatim>\<open>fs::exists(p)\<close> throws a \<^verbatim>\<open>filesystem_error\<close> whose
    \<^verbatim>\<open>what()\<close> is \<open>what\<close> (for instance no search permission);
  \<^item> \<open>mkdir_error p = Some what\<close>: \<^verbatim>\<open>fs::create_directory(p)\<close> throws (permissions, disk
    full);
  \<^item> \<open>rename_error p q = Some what\<close>: \<^verbatim>\<open>fs::rename(p, q)\<close> throws (permissions, another
    device);
  \<^item> \<open>weakly_canonical\<close>: the resolved form of a path string.

  These are the three library calls the source wraps in \<^verbatim>\<open>try\<close>; the enumeration of the
  directory, \<^verbatim>\<open>is_regular_file\<close> and \<^verbatim>\<open>weakly_canonical\<close> are taken not to throw.
\<close>

record world =
  tree :: tree
  exists_error :: "path \<Rightarrow> string option"
  mkdir_error :: "path \<Rightarrow> string option"
  rename_error :: "path \<Rightarrow> path \<Rightarrow> string option"
  weakly_canonical :: "string \<Rightarrow> string"
  cout :: "console list"
  cerr :: "console list"

text \<open>
  Path resolution: a path names a node only if every proper ancestor is a directory.
  The empty path is \<^verbatim>\<open>base_path\<close> itself, a directory (\<^verbatim>\<open>main\<close> has checked it).
\<close>

fun resolve :: "tree \<Rightarrow> path \<Rightarrow> path \<Rightarrow> node option" where
  "resolve t pre [] = (if pre = [] then Some Directory else map_of t pre)"
| "resolve t pre (n # rest) =
     (if pre = [] \<or> map_of t pre = Some Directory then resolve t (pre @ [n]) rest else None)"

definition status :: "tree \<Rightarrow> path \<Rightarrow> node option" where
  "status t p = resolve t [] p"

definition tree_remove :: "path \<Rightarrow> tree \<Rightarrow> tree" where
  "tree_remove p t = filter (\<lambda>e. fst e \<noteq> p) t"

definition tree_add :: "path \<Rightarrow> node \<Rightarrow> tree \<Rightarrow> tree" where
  "tree_add p n t = tree_remove p t @ [(p, n)]"

definition has_children :: "tree \<Rightarrow> path \<Rightarrow> bool" where
  "has_children t p = list_ex (\<lambda>e. strict_prefix p (fst e)) t"

text \<open>
  Moving a directory carries what is below it. The program never does this (it renames
  only what it has just seen to be a regular file).
\<close>

definition tree_move :: "path \<Rightarrow> path \<Rightarrow> tree \<Rightarrow> tree" where
  "tree_move src dst t =
     map (\<lambda>(p, n). if prefix src p then (dst @ drop (length src) p, n) else (p, n))
       (filter (\<lambda>e. \<not> prefix dst (fst e)) t)"

text \<open>\<^verbatim>\<open>fs::exists(p)\<close>: \<open>Inl what\<close> is the exception.\<close>

definition fs_exists :: "world \<Rightarrow> path \<Rightarrow> string + bool" where
  "fs_exists w p =
     (case exists_error w p of
        Some what \<Rightarrow> Inl what
      | None \<Rightarrow> Inr (status (tree w) p \<noteq> None))"

text \<open>
  \<^verbatim>\<open>fs::create_directory(p)\<close>: a new directory when nothing is there and the parent is a
  directory; no error when a directory is already there.
\<close>

definition fs_create_directory :: "world \<Rightarrow> path \<Rightarrow> string + world" where
  "fs_create_directory w p =
     (case mkdir_error w p of
        Some what \<Rightarrow> Inl what
      | None \<Rightarrow>
          if p = [] then Inr w
          else
            (case status (tree w) (butlast p) of
               None \<Rightarrow> Inl ''No such file or directory''
             | Some Directory \<Rightarrow>
                 (case status (tree w) p of
                    None \<Rightarrow> Inr (w\<lparr>tree := tree_add p Directory (tree w)\<rparr>)
                  | Some Directory \<Rightarrow> Inr w
                  | Some _ \<Rightarrow> Inl ''File exists'')
             | Some _ \<Rightarrow> Inl ''Not a directory''))"

text \<open>
  \<^verbatim>\<open>fs::rename(src, dst)\<close>, POSIX \<^verbatim>\<open>rename\<close>: the source must exist and the parent of the
  destination must be a directory; a file replaces an existing file at the destination
  (so it is for the caller to look first), and never a directory.
\<close>

definition fs_rename :: "world \<Rightarrow> path \<Rightarrow> path \<Rightarrow> string + world" where
  "fs_rename w src dst =
     (case rename_error w src dst of
        Some what \<Rightarrow> Inl what
      | None \<Rightarrow>
          (case status (tree w) src of
             None \<Rightarrow> Inl ''No such file or directory''
           | Some n \<Rightarrow>
               if dst = [] then Inl ''Invalid argument''
               else
                 (case status (tree w) (butlast dst) of
                    None \<Rightarrow> Inl ''No such file or directory''
                  | Some Directory \<Rightarrow>
                      if src = dst then Inr w
                      else if n = Directory then
                        (if prefix src dst then Inl ''Invalid argument''
                         else
                           (case status (tree w) dst of
                              None \<Rightarrow> Inr (w\<lparr>tree := tree_move src dst (tree w)\<rparr>)
                            | Some Directory \<Rightarrow>
                                if has_children (tree w) dst then Inl ''Directory not empty''
                                else Inr (w\<lparr>tree := tree_move src dst (tree w)\<rparr>)
                            | Some _ \<Rightarrow> Inl ''Not a directory''))
                      else
                        (case status (tree w) dst of
                           Some Directory \<Rightarrow> Inl ''Is a directory''
                         | _ \<Rightarrow> Inr (w\<lparr>tree := tree_add dst n (tree_remove src (tree w))\<rparr>))
                  | Some _ \<Rightarrow> Inl ''Not a directory'')))"

text \<open>\<^verbatim>\<open>entry.is_regular_file()\<close> for the entry at \<open>p\<close>.\<close>

definition is_regular_file :: "world \<Rightarrow> path \<Rightarrow> bool" where
  "is_regular_file w p = (case status (tree w) p of Some (Regular _) \<Rightarrow> True | _ \<Rightarrow> False)"

text \<open>
  \<^verbatim>\<open>fs::directory_iterator(base_path)\<close>: the names directly under \<^verbatim>\<open>base_path\<close>, each once,
  as they are when the iterator is made.
\<close>

definition directory_iterator :: "world \<Rightarrow> string list" where
  "directory_iterator w =
     remdups (concat (map (\<lambda>(p, n). case p of [name] \<Rightarrow> [name] | _ \<Rightarrow> []) (tree w)))"

text \<open>
  \<^verbatim>\<open>operator/\<close> of \<^verbatim>\<open>fs::path\<close> for a relative, non-empty right operand, as a string in the
  generic format: a separator is put in unless the left operand is empty or ends in one.
\<close>

definition path_append :: "string \<Rightarrow> string \<Rightarrow> string" where
  "path_append p q = (if p = [] \<or> last p = CHR ''/'' then p @ q else p @ ''/'' @ q)"

text \<open>
  \<^verbatim>\<open>fs::path::extension()\<close> of a path whose file name is \<open>name\<close> (ISO C++17,
  [fs.path.decompose]): empty for \<^verbatim>\<open>.\<close> and \<^verbatim>\<open>..\<close>, empty when the name has no period or
  its only period is the first byte, and otherwise the part of the name from its
  last period on. \<open>rfind c s\<close> is \<^verbatim>\<open>s.rfind(c)\<close>.
\<close>

fun rfind :: "char \<Rightarrow> string \<Rightarrow> nat option" where
  "rfind c [] = None"
| "rfind c (x # xs) =
     (case rfind c xs of
        Some i \<Rightarrow> Some (Suc i)
      | None \<Rightarrow> if x = c then Some 0 else None)"

definition extension :: "string \<Rightarrow> string" where
  "extension name =
     (if name = ''.'' \<or> name = ''..'' then []
      else
        (case rfind (CHR ''.'') name of
           None \<Rightarrow> []
         | Some pos \<Rightarrow> if pos = 0 then [] else drop pos name))"

subsection \<open>Provisioning the folders\<close>

text \<open>
  \<^verbatim>\<open>ensure_folders\<close>: for every folder name of \<^verbatim>\<open>FOLDER_MAP\<close>, create the directory unless
  \<^verbatim>\<open>fs::exists\<close> says something is there. A \<^verbatim>\<open>filesystem_error\<close> from either call is
  rethrown as a \<^verbatim>\<open>runtime_error\<close> with the path and the cause, and ends the loop. The
  result is the exception (\<open>Inl\<close> of its \<^verbatim>\<open>what()\<close>) or a normal return, with the world
  as the calls so far have left it.
\<close>

fun ensure_folders_loop :: "string \<Rightarrow> string list \<Rightarrow> world \<Rightarrow> (string + unit) \<times> world" where
  "ensure_folders_loop base_path [] w = (Inr (), w)"
| "ensure_folders_loop base_path (folder_name # rest) w =
     (case (case fs_exists w [folder_name] of
              Inl what \<Rightarrow> Inl what
            | Inr True \<Rightarrow> Inr w
            | Inr False \<Rightarrow> fs_create_directory w [folder_name]) of
        Inl what \<Rightarrow>
          (Inl (''Error creating directory '' @ path_append base_path folder_name @ '': '' @ what), w)
      | Inr w' \<Rightarrow> ensure_folders_loop base_path rest w')"

definition ensure_folders :: "string \<Rightarrow> world \<Rightarrow> (string + unit) \<times> world" where
  "ensure_folders base_path w = ensure_folders_loop base_path (map fst FOLDER_MAP) w"

subsection \<open>Moving the files\<close>

text \<open>
  The body of the loop of \<^verbatim>\<open>organize_files\<close> for the directory entry \<open>name\<close>; \<open>g\<close> is the
  global extension index. The file name of \<^verbatim>\<open>entry.path()\<close> is \<open>name\<close>.
\<close>

definition organize_entry :: "(string \<rightharpoonup> string) \<Rightarrow> string \<Rightarrow> string \<Rightarrow> string \<Rightarrow> world \<Rightarrow> world" where
  "organize_entry g base_path self_path name w =
     (if is_regular_file w [name] \<and> weakly_canonical w (path_append base_path name) \<noteq> self_path
      then
        (let ext = extension name in
         if ext = [] then w
         else
           (let folder = get_target_folder g ext;
                target_path = [folder, name]
            in case fs_exists w target_path of
                 Inl what \<Rightarrow> w\<lparr>cerr := cerr w @ [Error_moving name what]\<rparr>
               | Inr False \<Rightarrow>
                   (case fs_rename w [name] target_path of
                      Inl what \<Rightarrow> w\<lparr>cerr := cerr w @ [Error_moving name what]\<rparr>
                    | Inr w' \<Rightarrow> w')
               | Inr True \<Rightarrow> w\<lparr>cout := cout w @ [Skipping name folder]\<rparr>))
      else w)"

fun organize_loop :: "(string \<rightharpoonup> string) \<Rightarrow> string \<Rightarrow> string \<Rightarrow> string list \<Rightarrow> world \<Rightarrow> world" where
  "organize_loop g base_path self_path [] w = w"
| "organize_loop g base_path self_path (name # entries) w =
     organize_loop g base_path self_path entries (organize_entry g base_path self_path name w)"

definition organize_files :: "(string \<rightharpoonup> string) \<Rightarrow> string \<Rightarrow> string \<Rightarrow> world \<Rightarrow> (string + unit) \<times> world" where
  "organize_files g base_path self_path w =
     (case ensure_folders base_path w of
        (Inl what, w') \<Rightarrow> (Inl what, w')
      | (Inr u, w') \<Rightarrow> (Inr (), organize_loop g base_path self_path (directory_iterator w') w'))"

text \<open>
  The \<^verbatim>\<open>try\<close> block of \<^verbatim>\<open>main\<close> from the announcement on, with \<open>folder_path\<close> and
  \<open>self_path\<close> already resolved: the exit code and the world at exit.
\<close>

definition main_try :: "(string \<rightharpoonup> string) \<Rightarrow> string \<Rightarrow> string \<Rightarrow> world \<Rightarrow> int \<times> world" where
  "main_try g folder_path self_path w =
     (case organize_files g folder_path self_path (w\<lparr>cout := cout w @ [Organizing folder_path]\<rparr>) of
        (Inl what, w') \<Rightarrow> (1, w'\<lparr>cerr := cerr w' @ [Unexpected_error what]\<rparr>)
      | (Inr u, w') \<Rightarrow> (0, w'\<lparr>cout := cout w' @ [Complete]\<rparr>))"

section \<open>Properties\<close>

subsection \<open>The classifier\<close>

lemma of_char_tolower:
  "(of_char (tolower c) :: nat) = (if 65 \<le> (of_char c :: nat) \<and> (of_char c :: nat) \<le> 90 then of_char c + 32 else of_char c)"
  by (simp add: tolower_def Let_def)

lemma tolower_same_letter: "same_letter c d \<Longrightarrow> tolower d = tolower c"
proof -
  assume "same_letter c d"
  then have "(of_char (tolower d) :: nat) = of_char (tolower c)"
    unfolding of_char_tolower by (auto simp: same_letter_def Let_def)
  then show ?thesis by (simp only: of_char_eq_iff)
qed

lemma of_char_toupper:
  "(of_char (toupper c) :: nat) = (if 97 \<le> (of_char c :: nat) \<and> (of_char c :: nat) \<le> 122 then of_char c - 32 else of_char c)"
  by (auto simp: toupper_def Let_def)

lemma tolower_toupper: "tolower (toupper c) = tolower c"
proof -
  have "(of_char (tolower (toupper c)) :: nat) = of_char (tolower c)"
    unfolding of_char_tolower of_char_toupper by auto
  then show ?thesis by (simp only: of_char_eq_iff)
qed

lemma fold_ext_upd:
  "fold (\<lambda>ext g'. g'(ext \<mapsto> folder)) extensions g = g ++ map_of (rev (map (\<lambda>ext. (ext, folder)) extensions))"
  by (induction extensions arbitrary: g) (auto simp: map_add_def fun_eq_iff split: option.splits)

lemma fold_folder_upd:
  "fold (\<lambda>(folder, extensions) g'. fold (\<lambda>ext g''. g''(ext \<mapsto> folder)) extensions g') tbl g
     = g ++ map_of (rev (index_pairs tbl))"
proof (induction tbl arbitrary: g)
  case Nil
  then show ?case by (simp add: index_pairs_def)
next
  case (Cons a tbl)
  obtain folder extensions where a: "a = (folder, extensions)" by (cases a)
  have "index_pairs (a # tbl) = map (\<lambda>ext. (ext, folder)) extensions @ index_pairs tbl"
    by (simp add: a index_pairs_def)
  then have pairs: "map_of (rev (index_pairs (a # tbl)))
      = map_of (rev (map (\<lambda>ext. (ext, folder)) extensions)) ++ map_of (rev (index_pairs tbl))"
    by (simp only: rev_append map_of_append)
  have "fold (\<lambda>(folder, extensions) g'. fold (\<lambda>ext g''. g''(ext \<mapsto> folder)) extensions g') (a # tbl) g
      = fold (\<lambda>(folder, extensions) g'. fold (\<lambda>ext g''. g''(ext \<mapsto> folder)) extensions g') tbl
          (fold (\<lambda>ext g''. g''(ext \<mapsto> folder)) extensions g)"
    by (simp only: a fold_Cons o_apply split_conv)
  also have "\<dots> = fold (\<lambda>ext g''. g''(ext \<mapsto> folder)) extensions g ++ map_of (rev (index_pairs tbl))"
    by (rule Cons.IH)
  also have "\<dots> = g ++ map_of (rev (index_pairs (a # tbl)))"
    by (simp only: fold_ext_upd pairs map_add_assoc)
  finally show ?case .
qed

lemma map_of_rev_distinct:
  "distinct (map fst xs) \<Longrightarrow> map_of (rev xs) = map_of xs"
  by (rule ext) (metis distinct_rev map_of_eq_Some_iff map_of_eq_None_iff not_Some_eq rev_map set_rev)

lemma distinct_index: "distinct (map fst (index_pairs FOLDER_MAP))"
  by (simp add: index_pairs_def FOLDER_MAP_def)

lemma g_extension_to_folder_map_eq:
  "g_extension_to_folder_map = map_of (index_pairs FOLDER_MAP)"
  by (simp add: g_extension_to_folder_map_def build_extension_map_def fold_folder_upd
      map_of_rev_distinct [OF distinct_index])

lemma index_pairs_iff:
  "(ext, folder) \<in> set (index_pairs tbl) \<longleftrightarrow> (\<exists>extensions. (folder, extensions) \<in> set tbl \<and> ext \<in> set extensions)"
  by (auto simp: index_pairs_def)

lemma g_extension_to_folder_map_Some_iff:
  "g_extension_to_folder_map ext = Some folder \<longleftrightarrow>
     (\<exists>extensions. (folder, extensions) \<in> set FOLDER_MAP \<and> ext \<in> set extensions)"
  by (simp add: g_extension_to_folder_map_eq map_of_eq_Some_iff [OF distinct_index] index_pairs_iff)

lemma g_extension_to_folder_map_None_iff:
  "g_extension_to_folder_map ext = None \<longleftrightarrow> ext \<notin> set (concat (map snd FOLDER_MAP))"
  by (force simp add: g_extension_to_folder_map_eq map_of_eq_None_iff index_pairs_def image_iff)

lemma table_lower: "e \<in> set (concat (map snd FOLDER_MAP)) \<Longrightarrow> map tolower e = e"
  by (simp add: FOLDER_MAP_def) (elim disjE; simp; code_simp)

lemma get_target_folder_in_table:
  "get_target_folder g_extension_to_folder_map e \<in> set (map fst FOLDER_MAP)"
proof (cases "g_extension_to_folder_map (map tolower e)")
  case None
  then show ?thesis by (simp add: get_target_folder_def FOLDER_MAP_def)
next
  case (Some folder)
  then obtain extensions where "(folder, extensions) \<in> set FOLDER_MAP"
    by (auto simp: g_extension_to_folder_map_Some_iff)
  then have "folder \<in> set (map fst FOLDER_MAP)" by force
  with Some show ?thesis by (simp add: get_target_folder_def)
qed

text \<open>
  C5. For every extension \<open>e\<close> of the table, an upper-case or mixed-case spelling of
  \<open>e\<close> is classified as \<open>e\<close> is, namely into the folder that lists \<open>e\<close>.
\<close>

theorem classify_case_insensitive:
  assumes "e \<in> set (concat (map snd FOLDER_MAP))" and "case_variant e v"
  shows "get_target_folder g_extension_to_folder_map v = get_target_folder g_extension_to_folder_map e
       \<and> get_target_folder g_extension_to_folder_map (map toupper e)
           = get_target_folder g_extension_to_folder_map e
       \<and> (\<exists>extensions. (get_target_folder g_extension_to_folder_map e, extensions) \<in> set FOLDER_MAP
             \<and> e \<in> set extensions)"
proof -
  from assms(2) have "map tolower v = map tolower e"
    unfolding case_variant_def
    by (induction e v rule: list_all2_induct) (simp_all add: tolower_same_letter)
  then have v: "get_target_folder g_extension_to_folder_map v = get_target_folder g_extension_to_folder_map e"
    by (simp only: get_target_folder_def)
  have "map tolower (map toupper e) = map tolower e"
    by (induction e) (simp_all add: tolower_toupper)
  then have u: "get_target_folder g_extension_to_folder_map (map toupper e)
      = get_target_folder g_extension_to_folder_map e"
    by (simp only: get_target_folder_def)
  from assms(1) obtain folder where "g_extension_to_folder_map e = Some folder"
    using g_extension_to_folder_map_None_iff [of e] by auto
  then have "\<exists>extensions. (get_target_folder g_extension_to_folder_map e, extensions) \<in> set FOLDER_MAP
      \<and> e \<in> set extensions"
    using g_extension_to_folder_map_Some_iff [of e folder] table_lower [OF assms(1)]
    by (simp add: get_target_folder_def)
  with v u show ?thesis by blast
qed

theorem classify_case_insensitive_witness:
  "get_target_folder g_extension_to_folder_map ''.TxT'' = get_target_folder g_extension_to_folder_map ''.txt''
   \<and> get_target_folder g_extension_to_folder_map (map toupper ''.txt'')
       = get_target_folder g_extension_to_folder_map ''.txt''"
proof -
  have h1: "''.txt'' \<in> set (concat (map snd FOLDER_MAP))"
    by (simp add: FOLDER_MAP_def)
  have h2: "case_variant ''.txt'' ''.TxT''"
    by (simp add: case_variant_def same_letter_def)
  show ?thesis using classify_case_insensitive [OF h1 h2] by simp
qed

text \<open>
  C6. \<open>get_target_folder\<close> is a function of the extension alone, defined on every
  string; an extension whose lower-case form is in no extension list of the table is
  classified as \<open>Others\<close>.
\<close>

theorem classify_default:
  assumes "map tolower e \<notin> set (concat (map snd FOLDER_MAP))"
  shows "get_target_folder g_extension_to_folder_map e = ''Others''"
  using assms g_extension_to_folder_map_None_iff [of "map tolower e"]
  by (simp add: get_target_folder_def)

theorem classify_default_witness:
  "get_target_folder g_extension_to_folder_map ''.UnknownExt'' = ''Others''"
proof -
  have low: "map tolower ''.UnknownExt'' = ''.unknownext''" by code_simp
  have "map tolower ''.UnknownExt'' \<notin> set (concat (map snd FOLDER_MAP))"
    unfolding low by (simp add: FOLDER_MAP_def)
  then show ?thesis by (rule classify_default)
qed

subsection \<open>The argument trimmer\<close>

lemma find_first_not_of_None: "find_first_not_of s cs = None \<longleftrightarrow> set s \<subseteq> set cs"
  by (induction s) auto

lemma find_first_not_of_Some:
  "find_first_not_of s cs = Some f \<Longrightarrow> f = length (takeWhile (\<lambda>c. c \<in> set cs) s) \<and> f < length s"
  by (induction s arbitrary: f) (auto split: if_splits)

lemma length_takeWhile_less: "x \<in> set xs \<Longrightarrow> \<not> P x \<Longrightarrow> length (takeWhile P xs) < length xs"
  by (induction xs) auto

lemma find_last_not_of_eq:
  "find_last_not_of s cs =
     (if set s \<subseteq> set cs then None
      else Some (length s - 1 - length (takeWhile (\<lambda>c. c \<in> set cs) (rev s))))"
proof (induction s)
  case Nil
  then show ?case by simp
next
  case (Cons x xs)
  show ?case
  proof (cases "set xs \<subseteq> set cs")
    case True
    then have "takeWhile (\<lambda>c. c \<in> set cs) (rev xs @ [x]) = rev xs @ takeWhile (\<lambda>c. c \<in> set cs) [x]"
      by (intro takeWhile_append2) auto
    with True show ?thesis by (simp add: Cons.IH)
  next
    case False
    then obtain y where y: "y \<in> set (rev xs)" "\<not> y \<in> set cs" by auto
    have tw: "takeWhile (\<lambda>c. c \<in> set cs) (rev xs @ [x]) = takeWhile (\<lambda>c. c \<in> set cs) (rev xs)"
      using y by (rule takeWhile_append1)
    have "length (takeWhile (\<lambda>c. c \<in> set cs) (rev xs)) < length xs"
      using length_takeWhile_less [of y "rev xs" "\<lambda>c. c \<in> set cs"] y by simp
    with False show ?thesis by (simp add: Cons.IH tw)
  qed
qed

lemma rev_dropWhile_rev:
  "rev (dropWhile P (rev xs)) = take (length xs - length (takeWhile P (rev xs))) xs"
proof -
  have "take (length xs - length (takeWhile P (rev xs))) xs
      = rev (drop (length (takeWhile P (rev xs))) (rev xs))"
    by (simp add: rev_drop)
  also have "\<dots> = rev (dropWhile P (rev xs))"
    by (simp add: dropWhile_eq_drop)
  finally show ?thesis by simp
qed

lemma strip_window:
  assumes "find_first_not_of s cs = Some f"
  shows "\<exists>l. find_last_not_of s cs = Some l \<and> f \<le> l \<and> l < length s
            \<and> substr s f (span (Some l) f) = Some (strip cs s)"
proof -
  let ?P = "\<lambda>c. c \<in> set cs"
  from assms have f: "f = length (takeWhile ?P s)" "f < length s"
    by (auto dest: find_first_not_of_Some)
  from assms have ns: "\<not> set s \<subseteq> set cs"
    using find_first_not_of_None [of s cs] by simp
  define l where "l = length s - 1 - length (takeWhile ?P (rev s))"
  have l: "find_last_not_of s cs = Some l"
    using ns by (simp add: find_last_not_of_eq l_def)
  have ds: "drop f s = dropWhile ?P s"
    unfolding f(1) by (simp add: dropWhile_eq_drop)
  have ne: "dropWhile ?P s \<noteq> []" using ns by auto
  then have hd: "hd (dropWhile ?P s) \<in> set (rev (dropWhile ?P s))" "\<not> ?P (hd (dropWhile ?P s))"
    using hd_dropWhile [of ?P s] by simp_all
  have "rev s = rev (dropWhile ?P s) @ rev (takeWhile ?P s)"
    by (simp only: rev_append [symmetric] takeWhile_dropWhile_id)
  then have tw: "takeWhile ?P (rev s) = takeWhile ?P (rev (dropWhile ?P s))"
    using hd takeWhile_append1 [of "hd (dropWhile ?P s)" "rev (dropWhile ?P s)" ?P "rev (takeWhile ?P s)"]
    by simp
  have lt: "length (takeWhile ?P (rev (dropWhile ?P s))) < length (dropWhile ?P s)"
    using length_takeWhile_less [of "hd (dropWhile ?P s)" "rev (dropWhile ?P s)" ?P] hd by simp
  have len: "length (dropWhile ?P s) = length s - f"
    by (simp add: ds [symmetric])
  have fl: "f \<le> l" "l < length s" and sp: "l - f + 1 = length (dropWhile ?P s) - length (takeWhile ?P (rev (dropWhile ?P s)))"
    using lt f(2) unfolding l_def tw len by auto
  have "strip cs s = take (l - f + 1) (drop f s)"
    unfolding strip_def rev_dropWhile_rev sp ds ..
  with fl f l show ?thesis by (auto simp: substr_def span_def)
qed

lemma strip_empty:
  assumes "find_first_not_of s cs = None"
  shows "strip cs s = []"
proof -
  have dw: "dropWhile (\<lambda>c. c \<in> set cs) s = []"
    using assms by (auto simp: find_first_not_of_None)
  show ?thesis unfolding strip_def dw by simp
qed

lemma strip_Nil: "strip cs [] = []"
  by (simp add: strip_def)

lemma trim_path_eq: "trim_path raw = Some (trim_spec raw)"
proof (cases "find_first_not_of raw whitespace")
  case None
  then have "strip whitespace raw = []" by (rule strip_empty)
  then have "trim_spec raw = []" by (simp only: trim_spec_def strip_Nil)
  with None show ?thesis by (simp add: trim_path_def)
next
  case (Some f)
  from strip_window [OF Some] obtain l where
    l: "find_last_not_of raw whitespace = Some l" "substr raw f (span (Some l) f) = Some (strip whitespace raw)"
    by blast
  show ?thesis
  proof (cases "find_first_not_of (strip whitespace raw) quotes")
    case None
    then have "trim_spec raw = []" by (simp only: trim_spec_def strip_empty)
    with None show ?thesis by (simp add: trim_path_def Some l)
  next
    case (Some f')
    from strip_window [OF Some] obtain l' where
      "find_last_not_of (strip whitespace raw) quotes = Some l'"
      "substr (strip whitespace raw) f' (span (Some l') f') = Some (strip quotes (strip whitespace raw))"
      by blast
    then show ?thesis by (simp add: trim_path_def trim_spec_def \<open>find_first_not_of raw whitespace = Some f\<close> l Some)
  qed
qed

lemma strip_Nil_iff: "strip cs s = [] \<longleftrightarrow> set s \<subseteq> set cs"
proof
  assume "strip cs s = []"
  then have "dropWhile (\<lambda>c. c \<in> set cs) (rev (dropWhile (\<lambda>c. c \<in> set cs) s)) = []"
    by (simp only: strip_def rev_is_Nil_conv)
  then have "\<forall>x \<in> set (rev (dropWhile (\<lambda>c. c \<in> set cs) s)). x \<in> set cs"
    by (simp only: dropWhile_eq_Nil_conv)
  then have all: "\<And>x. x \<in> set (dropWhile (\<lambda>c. c \<in> set cs) s) \<Longrightarrow> x \<in> set cs"
    by (simp only: set_rev)
  have "dropWhile (\<lambda>c. c \<in> set cs) s = []"
  proof (rule ccontr)
    assume ne: "dropWhile (\<lambda>c. c \<in> set cs) s \<noteq> []"
    then have "hd (dropWhile (\<lambda>c. c \<in> set cs) s) \<in> set (dropWhile (\<lambda>c. c \<in> set cs) s)"
      by (rule hd_in_set)
    then have "hd (dropWhile (\<lambda>c. c \<in> set cs) s) \<in> set cs" by (rule all)
    with hd_dropWhile [OF ne] show False by simp
  qed
  then have "\<forall>x \<in> set s. x \<in> set cs" by (simp only: dropWhile_eq_Nil_conv)
  then show "set s \<subseteq> set cs" by blast
next
  assume "set s \<subseteq> set cs"
  then have "\<forall>x \<in> set s. x \<in> set cs" by blast
  then have dw: "dropWhile (\<lambda>c. c \<in> set cs) s = []" by (simp only: dropWhile_eq_Nil_conv)
  show "strip cs s = []" unfolding strip_def dw by simp
qed

text \<open>
  C9, as the claim states it, fails: the input \<^verbatim>\<open>' '\<close> (quote, space, quote) consists only
  of white space and quote characters, and \<open>trim_path\<close> returns the space between the
  quotes, not the empty string.
\<close>

theorem trim_path_quoted_space:
  "set [CHR 0x27, CHR 0x20, CHR 0x27] \<subseteq> set whitespace \<union> set quotes
   \<and> trim_path [CHR 0x27, CHR 0x20, CHR 0x27] = Some [CHR 0x20]
   \<and> trim_path [CHR 0x27, CHR 0x20, CHR 0x27] \<noteq> Some []"
  by (simp add: trim_path_def substr_def span_def whitespace_def quotes_def)

text \<open>
  C9, amended. \<open>trim_path\<close> never throws and returns its argument with the leading and
  trailing white space stripped and then the leading and trailing quote characters
  stripped. The result is empty exactly when what is left after the white space is
  stripped consists of quote characters only; in particular it is empty for an input
  of white space only.
\<close>

theorem trim_path_strips:
  "trim_path raw = Some (strip quotes (strip whitespace raw))
   \<and> (trim_path raw = Some [] \<longleftrightarrow> set (strip whitespace raw) \<subseteq> set quotes)
   \<and> (set raw \<subseteq> set whitespace \<longrightarrow> trim_path raw = Some [])"
proof -
  have eq: "trim_path raw = Some (strip quotes (strip whitespace raw))"
    by (simp only: trim_path_eq trim_spec_def)
  have iff: "trim_path raw = Some [] \<longleftrightarrow> set (strip whitespace raw) \<subseteq> set quotes"
    by (simp only: eq option.inject strip_Nil_iff)
  have ws: "set raw \<subseteq> set whitespace \<longrightarrow> trim_path raw = Some []"
  proof
    assume "set raw \<subseteq> set whitespace"
    then have "strip whitespace raw = []" by (simp only: strip_Nil_iff)
    then show "trim_path raw = Some []" by (simp only: eq strip_Nil)
  qed
  show ?thesis by (rule conjI [OF eq conjI [OF iff ws]])
qed

theorem trim_path_strips_witness:
  "trim_path [CHR 0x20, CHR 0x09] = Some []
   \<and> trim_path [CHR 0x20, CHR 0x22, CHR 0x27, CHR 0x20] = Some []"
proof -
  have h1: "set [CHR 0x20, CHR 0x09] \<subseteq> set whitespace"
    by (simp add: whitespace_def)
  have h2: "set (strip whitespace [CHR 0x20, CHR 0x22, CHR 0x27, CHR 0x20]) \<subseteq> set quotes"
    by (simp add: strip_def whitespace_def quotes_def)
  show ?thesis
    using trim_path_strips [of "[CHR 0x20, CHR 0x09]"]
      trim_path_strips [of "[CHR 0x20, CHR 0x22, CHR 0x27, CHR 0x20]"] h1 h2
    by blast
qed

end
